theory Spec2Isabelle
  imports Complex_Main "HOL-Library.Monad_Syntax"
begin

section \<open>Conventions of the embedding\<close>

text \<open>
  PyLag is written in Cython. The embedding reads
  \<^item> \<open>DTYPE_FLOAT_t\<close> (a C double) as \<^typ>\<open>real\<close>: arithmetic is exact, rounding,
    infinities and NaN are not modelled;
  \<^item> \<open>DTYPE_INT_t\<close> as \<^typ>\<open>int\<close>;
  \<^item> a typed memoryview as a list, read with Cython's default directives
    (\<open>boundscheck=True\<close>, \<open>wraparound=True\<close>): a negative index counts from the end and
    an index out of range raises \<open>IndexError\<close>, which is the value \<open>None\<close>;
  \<^item> a \<open>std::vector\<close> of fixed size as a list updated with \<open>xs[i := v]\<close> at indices that
    the source keeps in range;
  \<^item> a Python exception as a value of the datatype \<open>error\<close>; the two \<open>ValueError\<close>s of
    seed creation carry the depth and the bound they report, the one of \<open>update\<close> the
    number it reports, and \<open>OtherError\<close> is any exception of a collaborator.
\<close>

datatype error =
    ValueError_below_sea_floor real real
  | ValueError_above_free_surface real real
  | ValueError_unrecognised_flag int
  | ZeroDivisionError
  | IndexError
  | OtherError

text \<open>Reading \<open>a[i]\<close> and \<open>a[i, j]\<close> from a memoryview.\<close>

definition mv_get :: "'a list \<Rightarrow> int \<Rightarrow> 'a option" where
  "mv_get a i =
     (let n = int (length a); j = (if i < 0 then i + n else i)
      in if 0 \<le> j \<and> j < n then Some (a ! nat j) else None)"


subsection \<open>Constants\<close>

text \<open>
  Modelled from the spec: \<open>constants.pxi\<close>, which defines the flags, is not among the
  sources. The spec fixes LAND at \<open>-1\<close> and OPEN at \<open>-2\<close>; \<open>model.pyx\<close> tests these
  literals, and \<open>flag == 0\<close> for a particle found in the domain.
\<close>

definition IN_DOMAIN :: int where
  "IN_DOMAIN = 0"

section \<open>Particles\<close>

text \<open>
  The Cython struct \<open>Particle\<close> that \<open>model.pyx\<close> and \<open>ParticleSmartPtr\<close> work on. Its
  declaration is not among the sources; the fields are those the two files assign.
  \<open>phi\<close> is the C array \<open>phi[3]\<close>.
\<close>

record Particle =
  group_id :: int
  xpos :: real
  ypos :: real
  zpos :: real
  phi :: "real list"
  omega_interfaces :: real
  omega_layers :: real
  in_domain :: bool
  is_beached :: int
  host_horizontal_elem :: int
  k_layer :: int
  in_vertical_boundary_layer :: bool
  k_lower_layer :: int
  k_upper_layer :: int
  host_z_layer :: int

text \<open>
  \<open>ParticleSmartPtr.__cinit__\<close>. \<open>PyMem_Malloc\<close> returns a block with arbitrary content,
  the argument \<open>mem\<close>; the constructor then assigns every field but \<open>host_z_layer\<close>.
  The keyword arguments are passed in a record, whose default value is \<open>cinit_defaults\<close>.
\<close>

record cinit_args =
  arg_group_id :: int
  arg_xpos :: real
  arg_ypos :: real
  arg_zpos :: real
  arg_phi1 :: real
  arg_phi2 :: real
  arg_phi3 :: real
  arg_omega_interfaces :: real
  arg_omega_layers :: real
  arg_in_domain :: bool
  arg_is_beached :: int
  arg_host :: int
  arg_k_layer :: int
  arg_in_vertical_boundary_layer :: bool
  arg_k_lower_layer :: int
  arg_k_upper_layer :: int

definition cinit_defaults :: cinit_args where
  "cinit_defaults =
     \<lparr> arg_group_id = - 999, arg_xpos = - 999, arg_ypos = - 999, arg_zpos = - 999,
       arg_phi1 = - 999, arg_phi2 = - 999, arg_phi3 = - 999,
       arg_omega_interfaces = - 999, arg_omega_layers = - 999,
       arg_in_domain = False, arg_is_beached = 0, arg_host = - 999,
       arg_k_layer = - 999, arg_in_vertical_boundary_layer = False,
       arg_k_lower_layer = - 999, arg_k_upper_layer = - 999 \<rparr>"

definition cinit :: "Particle \<Rightarrow> cinit_args \<Rightarrow> Particle" where
  "cinit mem a =
     mem \<lparr> group_id := arg_group_id a,
           xpos := arg_xpos a,
           ypos := arg_ypos a,
           zpos := arg_zpos a,
           phi := [arg_phi1 a, arg_phi2 a, arg_phi3 a],
           omega_interfaces := arg_omega_interfaces a,
           omega_layers := arg_omega_layers a,
           in_domain := arg_in_domain a,
           is_beached := arg_is_beached a,
           host_horizontal_elem := arg_host a,
           k_layer := arg_k_layer a,
           in_vertical_boundary_layer := arg_in_vertical_boundary_layer a,
           k_lower_layer := arg_k_lower_layer a,
           k_upper_layer := arg_k_upper_layer a \<rparr>"

text \<open>\<open>copy\<close>: a new \<open>ParticleSmartPtr\<close> built from the fields of the given one.\<close>

definition copy :: "Particle \<Rightarrow> Particle \<Rightarrow> Particle" where
  "copy mem p =
     cinit mem
       \<lparr> arg_group_id = group_id p, arg_xpos = xpos p, arg_ypos = ypos p, arg_zpos = zpos p,
         arg_phi1 = phi p ! 0, arg_phi2 = phi p ! 1, arg_phi3 = phi p ! 2,
         arg_omega_interfaces = omega_interfaces p, arg_omega_layers = omega_layers p,
         arg_in_domain = in_domain p, arg_is_beached = is_beached p,
         arg_host = host_horizontal_elem p,
         arg_k_layer = k_layer p,
         arg_in_vertical_boundary_layer = in_vertical_boundary_layer p,
         arg_k_lower_layer = k_lower_layer p, arg_k_upper_layer = k_upper_layer p \<rparr>"

text \<open>
  The C++ class \<open>particles::Particle\<close> that \<open>FVCOMDataReader\<close> reads through getters.
  Each field is named after the getter the reader calls.
\<close>

record particles_Particle =
  get_group_id :: int
  get_id :: int
  get_status :: int
  get_x1 :: real
  get_x2 :: real
  get_x3 :: real
  get_omega_interfaces :: real
  get_omega_layers :: real
  get_in_domain :: bool
  get_is_beached :: int
  get_host_horizontal_elem :: int
  get_phi :: "real list"
  get_k_layer :: int
  get_in_vertical_boundary_layer :: bool
  get_k_lower_layer :: int
  get_k_upper_layer :: int

section \<open>FVCOMDataReader\<close>

text \<open>
  \<open>UnstructuredGrid\<close> (module \<open>pylag.unstructured\<close>) is not among the sources: the
  two searches that \<open>find_host\<close> delegates to are parameters. Each takes the particles
  by pointer, so it returns the new particle it may have updated next to its flag; the
  declarations end in \<open>except INT_ERR\<close>, so each may raise instead.
\<close>

record UnstructuredGrid =
  grid_find_host_using_local_search ::
    "particles_Particle \<Rightarrow> int \<Rightarrow> error + (int \<times> particles_Particle)"
  grid_find_host_using_particle_tracing ::
    "particles_Particle \<Rightarrow> particles_Particle \<Rightarrow> error + (int \<times> particles_Particle)"

text \<open>The calls a reader makes on its grid, in the order it makes them.\<close>

datatype grid_call =
    Local_search particles_Particle int
  | Particle_tracing particles_Particle particles_Particle


record 'm FVCOMDataReader =
  mediator :: 'm
  m_unstructured_grid :: UnstructuredGrid
  env_var_names :: "string list"
  m_n_elems :: int
  m_n_nodes :: int
  m_n_siglay :: int
  m_n_siglev :: int
  m_nv :: "int list list"
  m_nbe :: "int list list"
  m_x :: "real list"
  m_y :: "real list"
  m_xc :: "real list"
  m_yc :: "real list"
  m_siglev :: "real list list"
  m_siglay :: "real list list"
  m_h :: "real list"
  m_zeta_last :: "real list"
  m_zeta_next :: "real list"
  m_u_last :: "real list list"
  m_u_next :: "real list list"
  m_v_last :: "real list list"
  m_v_next :: "real list list"
  m_w_last :: "real list list"
  m_w_next :: "real list list"
  m_kh_last :: "real list list"
  m_kh_next :: "real list list"
  m_viscofh_last :: "real list list"
  m_viscofh_next :: "real list list"
  m_wet_cells_last :: "int list"
  m_wet_cells_next :: "int list"
  m_thetao_last :: "real list list"
  m_thetao_next :: "real list list"
  m_so_last :: "real list list"
  m_so_next :: "real list list"
  m_time_direction :: int
  m_time_last :: real
  m_time_next :: real
  m_has_Kh :: bool
  m_has_Ah :: bool
  m_has_is_wet :: bool

subsection \<open>is_wet\<close>

text \<open>The Python \<open>or\<close> reads the second frame only when the first one is wet.\<close>

definition is_wet :: "real \<Rightarrow> 'm FVCOMDataReader \<Rightarrow> particles_Particle \<Rightarrow> int option" where
  "is_wet time self particle =
     (let host_element = get_host_horizontal_elem particle in
      if m_has_is_wet self then
        do {
          wet_last \<leftarrow> mv_get (m_wet_cells_last self) host_element;
          if wet_last = 0 then Some 0
          else do {
            wet_next \<leftarrow> mv_get (m_wet_cells_next self) host_element;
            if wet_next = 0 then Some 0 else Some 1
          }
        }
      else Some 1)"

subsection \<open>find_host\<close>

text \<open>
  The result is the list of grid calls made, and either the exception raised or the flag
  with the new particle as the searches left it.
\<close>

definition find_host ::
  "'m FVCOMDataReader \<Rightarrow> particles_Particle \<Rightarrow> particles_Particle
     \<Rightarrow> grid_call list \<times> (error + (int \<times> particles_Particle))" where
  "find_host self particle_old particle_new =
     (let first_guess = get_host_horizontal_elem particle_old in
      case grid_find_host_using_local_search (m_unstructured_grid self) particle_new first_guess of
        Inl e \<Rightarrow> ([Local_search particle_new first_guess], Inl e)
      | Inr (flag, particle_new1) \<Rightarrow>
          if flag \<noteq> IN_DOMAIN then
            ([Local_search particle_new first_guess, Particle_tracing particle_old particle_new1],
             grid_find_host_using_particle_tracing (m_unstructured_grid self)
               particle_old particle_new1)
          else ([Local_search particle_new first_guess], Inr (flag, particle_new1)))"

subsection \<open>read_data\<close>






section \<open>Interpolation primitives (interpolation.pyx)\<close>

text \<open>Writing \<open>a[i] = v\<close> into a memoryview.\<close>

definition mv_set :: "'a list \<Rightarrow> int \<Rightarrow> 'a \<Rightarrow> 'a list option" where
  "mv_set a i v =
     (let n = int (length a); j = (if i < 0 then i + n else i)
      in if 0 \<le> j \<and> j < n then Some (a[nat j := v]) else None)"

text \<open>
  \<open>get_barycentric_coords\<close> writes into the memoryview \<open>phi\<close>; the model returns the
  array written. The function is declared without a C return type, so the exceptions
  of Cython's checked division (\<open>cdivision=False\<close>) and indexing reach the caller.
\<close>

definition get_barycentric_coords ::
  "real \<Rightarrow> real \<Rightarrow> real list \<Rightarrow> real list \<Rightarrow> real list \<Rightarrow> error + real list" where
  "get_barycentric_coords x y x_tri y_tri phi' =
     (case do { y2 \<leftarrow> mv_get y_tri 2; y0 \<leftarrow> mv_get y_tri 0;
                x0 \<leftarrow> mv_get x_tri 0; x2 \<leftarrow> mv_get x_tri 2;
                y1 \<leftarrow> mv_get y_tri 1; x1 \<leftarrow> mv_get x_tri 1;
                Some (x0, x1, x2, y0, y1, y2) } of
        None \<Rightarrow> Inl IndexError
      | Some (x0, x1, x2, y0, y1, y2) \<Rightarrow>
          (let a11 = y2 - y0;
               a12 = x0 - x2;
               a21 = y0 - y1;
               a22 = x1 - x0;
               det = a11 * a22 - a12 * a21
           in if det = 0 then Inl ZeroDivisionError
              else
                (case do { phi_a \<leftarrow> mv_set phi' 0 ((a11 * (x - x0) + a12 * (y - y0)) / det);
                           phi_b \<leftarrow> mv_set phi_a 1 ((a21 * (x - x0) + a22 * (y - y0)) / det);
                           p0 \<leftarrow> mv_get phi_b 0;
                           p1 \<leftarrow> mv_get phi_b 1;
                           mv_set phi_b 2 (1 - p0 - p1) } of
                   None \<Rightarrow> Inl IndexError
                 | Some phi_c \<Rightarrow> Inr phi_c)))"

text \<open>The determinant that \<open>get_barycentric_coords\<close> divides by.\<close>

definition barycentric_det :: "real list \<Rightarrow> real list \<Rightarrow> real" where
  "barycentric_det x_tri y_tri =
     (y_tri ! 2 - y_tri ! 0) * (x_tri ! 1 - x_tri ! 0)
       - (x_tri ! 0 - x_tri ! 2) * (y_tri ! 0 - y_tri ! 1)"







subsection \<open>Velocity by Shepard interpolation\<close>












section \<open>FVCOMOPTModel (model.pyx)\<close>

text \<open>
  The struct \<open>Delta\<close> of \<open>pylag.delta\<close>, a module that is not among the sources; its
  fields \<open>x\<close>, \<open>y\<close>, \<open>z\<close> are named \<open>delta_x\<close>, \<open>delta_y\<close>, \<open>delta_z\<close> here.
\<close>

record Delta =
  delta_x :: real
  delta_y :: real
  delta_z :: real

text \<open>
  Modelled from the spec: \<open>reset\<close> is defined in the absent \<open>pylag.delta\<close>; step 2 of
  the spec's pipeline is \<open>\<Delta> := 0\<close>. The model takes the value \<open>reset\<close> leaves in
  \<open>delta_X\<close>.
\<close>

definition reset :: Delta where
  "reset = \<lparr> delta_x = 0, delta_y = 0, delta_z = 0 \<rparr>"

text \<open>
  Modelled from the spec: \<open>sigma_to_cartesian_coords\<close> is defined in the absent
  \<open>pylag.math\<close>. The spec has \<open>sigma = (z - zeta) / (zeta - (-h))\<close>, and the callers pass
  \<open>zmin = -h\<close> as second argument.
\<close>

definition sigma_to_cartesian_coords :: "real \<Rightarrow> real \<Rightarrow> real \<Rightarrow> real" where
  "sigma_to_cartesian_coords sigma h zeta = zeta + sigma * (zeta - h)"

text \<open>
  Modelled from the spec: the data reader that \<open>model.pyx\<close> calls (with positions and a
  host as arguments, as \<open>TestHorizBCDataReader\<close> declares them) is not among the sources.
  Every method is a parameter. After the spec, \<open>set_local_coordinates\<close> recomputes
  \<open>phi\<close> and \<open>set_vertical_grid_vars\<close> sets the layer indices, \<open>in_vertical_boundary_layer\<close>
  and the two \<open>omega\<close>s: each parameter returns the values it leaves in these fields
  of the particle, and \<open>set_vertical_grid_vars\<close> its return value too.
\<close>

record vertical_grid_vars =
  new_k_layer :: int
  new_k_lower_layer :: int
  new_k_upper_layer :: int
  new_in_vertical_boundary_layer :: bool
  new_omega_interfaces :: real
  new_omega_layers :: real

record DataReader =
  reader_find_host :: "real \<Rightarrow> real \<Rightarrow> real \<Rightarrow> real \<Rightarrow> int \<Rightarrow> int \<times> int"
  reader_find_host_using_local_search :: "real \<Rightarrow> real \<Rightarrow> int \<Rightarrow> int \<times> int"
  reader_find_host_using_global_search :: "real \<Rightarrow> real \<Rightarrow> int"
  reader_set_local_coordinates :: "Particle \<Rightarrow> real list"
  reader_get_zmin :: "real \<Rightarrow> Particle \<Rightarrow> real"
  reader_get_zmax :: "real \<Rightarrow> Particle \<Rightarrow> real"
  reader_set_vertical_grid_vars :: "real \<Rightarrow> Particle \<Rightarrow> int \<times> vertical_grid_vars"

text \<open>
  Modelled from the spec: the integrator, the random-walk models and the
  boundary-condition calculators (\<open>pylag.integrator\<close>, \<open>pylag.random_walk\<close>,
  \<open>pylag.boundary_conditions\<close>) are not among the sources and are parameters. After the
  spec's contract, \<open>advect\<close> and \<open>random_walk\<close> write into the \<open>Delta\<close> and do not mutate
  the particle: \<open>advect\<close> returns \<open>host_err\<close> and the new \<open>Delta\<close>, \<open>random_walk\<close> the
  new \<open>Delta\<close> and the new state \<open>'g\<close> of the random generator. The two \<open>apply\<close>
  methods return the reflected position and depth.
\<close>

type_synonym NumIntegrator =
  "real \<Rightarrow> Particle \<Rightarrow> DataReader \<Rightarrow> Delta \<Rightarrow> int \<times> Delta"

type_synonym 'g RandomWalk =
  "real \<Rightarrow> Particle \<Rightarrow> DataReader \<Rightarrow> Delta \<Rightarrow> 'g \<Rightarrow> Delta \<times> 'g"

type_synonym HorizBoundaryConditionCalculator =
  "DataReader \<Rightarrow> real \<Rightarrow> real \<Rightarrow> real \<Rightarrow> real \<Rightarrow> int \<Rightarrow> real \<times> real"

type_synonym VertBoundaryConditionCalculator =
  "real \<Rightarrow> real \<Rightarrow> real \<Rightarrow> real"

text \<open>
  \<open>FVCOMOPTModel\<close>. An attribute that may be Python's \<open>None\<close> is an option;
  \<open>config_depth_coordinates\<close> is the value of
  \<open>config.get("SIMULATION", "depth_coordinates")\<close>.
\<close>

record 'g FVCOMOPTModel =
  config_depth_coordinates :: string
  data_reader :: DataReader
  num_integrator :: "NumIntegrator option"
  vert_rand_walk_model :: "'g RandomWalk option"
  horiz_rand_walk_model :: "'g RandomWalk option"
  horiz_bc_calculator :: HorizBoundaryConditionCalculator
  vert_bc_calculator :: VertBoundaryConditionCalculator
  particle_seed_smart_ptrs :: "Particle list option"
  particle_smart_ptrs :: "Particle list"
  m_group_ids :: "int list"
  m_x_positions :: "real list"
  m_y_positions :: "real list"
  m_z_positions :: "real list"
  time_step :: real

text \<open>The two reader calls that write into the particle.\<close>

definition set_local_coordinates :: "DataReader \<Rightarrow> Particle \<Rightarrow> Particle" where
  "set_local_coordinates reader particle =
     particle \<lparr> phi := reader_set_local_coordinates reader particle \<rparr>"

definition set_vertical_grid_vars :: "DataReader \<Rightarrow> real \<Rightarrow> Particle \<Rightarrow> int \<times> Particle" where
  "set_vertical_grid_vars reader time particle =
     (let (ret, vars) = reader_set_vertical_grid_vars reader time particle
      in (ret,
          particle \<lparr> k_layer := new_k_layer vars,
                     k_lower_layer := new_k_lower_layer vars,
                     k_upper_layer := new_k_upper_layer vars,
                     in_vertical_boundary_layer := new_in_vertical_boundary_layer vars,
                     omega_interfaces := new_omega_interfaces vars,
                     omega_layers := new_omega_layers vars \<rparr>))"

subsection \<open>_create_seed\<close>

text \<open>
  The host search at the head of the loop body: a local search from \<open>guess\<close> when there
  is one, with the global search as fallback when its flag is negative.
\<close>

definition find_seed_host :: "DataReader \<Rightarrow> int option \<Rightarrow> real \<Rightarrow> real \<Rightarrow> int" where
  "find_seed_host reader guess x y =
     (case guess of
        Some g \<Rightarrow>
          (let (flag, host_horizontal_elem') = reader_find_host_using_local_search reader x y g
           in if flag < 0 then reader_find_host_using_global_search reader x y
              else host_horizontal_elem')
      | None \<Rightarrow> reader_find_host_using_global_search reader x y)"

text \<open>
  The rest of the loop body, for one seed tuple: the exception raised, or the particle
  appended to the seed and the new \<open>guess\<close>. \<open>mem\<close> is the block \<open>PyMem_Malloc\<close> returns
  to the constructor.
\<close>

definition create_seed_particle ::
  "'g FVCOMOPTModel \<Rightarrow> Particle \<Rightarrow> real \<Rightarrow> int option \<Rightarrow> int \<times> real \<times> real \<times> real
     \<Rightarrow> error + (Particle \<times> int option)" where
  "create_seed_particle self mem time guess seed =
     (case seed of (group', x, y, z_temp) \<Rightarrow>
      let host_horizontal_elem' = find_seed_host (data_reader self) guess x y in
      if host_horizontal_elem' \<ge> 0 then
        (let in_domain' = True;
             particle0 = cinit mem (cinit_defaults \<lparr> arg_group_id := group', arg_xpos := x,
                           arg_ypos := y, arg_host := host_horizontal_elem',
                           arg_in_domain := in_domain' \<rparr>);
             particle1 = set_local_coordinates (data_reader self) particle0;
             zmin = reader_get_zmin (data_reader self) time particle1;
             zmax = reader_get_zmax (data_reader self) time particle1;
             particle2 =
               (if config_depth_coordinates self = ''cartesian''
                then particle1 \<lparr> zpos := z_temp + zmax \<rparr>
                else if config_depth_coordinates self = ''sigma''
                then particle1 \<lparr> zpos := sigma_to_cartesian_coords z_temp zmin zmax \<rparr>
                else particle1)
         in if zpos particle2 < zmin
            then Inl (ValueError_below_sea_floor (zpos particle2) zmin)
            else if zpos particle2 > zmax
            then Inl (ValueError_above_free_surface (zpos particle2) zmax)
            else
              (let (ret, particle3) = set_vertical_grid_vars (data_reader self) time particle2;
                   particle4 = particle3 \<lparr> host_z_layer := ret \<rparr>
               in Inr (particle4, Some host_horizontal_elem')))
      else
        (let in_domain' = False
         in Inr (cinit mem (cinit_defaults \<lparr> arg_group_id := group', arg_in_domain := in_domain' \<rparr>),
                 guess)))"

text \<open>
  The loop over the zipped seed arrays; \<open>malloc k\<close> is the block allocated for the
  \<open>k\<close>-th particle.
\<close>

fun create_seed_loop ::
  "'g FVCOMOPTModel \<Rightarrow> (nat \<Rightarrow> Particle) \<Rightarrow> real \<Rightarrow> int option \<Rightarrow> Particle list
     \<Rightarrow> (int \<times> real \<times> real \<times> real) list \<Rightarrow> error + Particle list" where
  "create_seed_loop self malloc time guess seeds [] = Inr seeds"
| "create_seed_loop self malloc time guess seeds (seed # rest) =
     (case create_seed_particle self (malloc (length seeds)) time guess seed of
        Inl e \<Rightarrow> Inl e
      | Inr (particle, guess') \<Rightarrow>
          create_seed_loop self malloc time guess' (seeds @ [particle]) rest)"

text \<open>\<open>_create_seed\<close>: the loop from an empty seed and no \<open>guess\<close>.\<close>

definition create_seed ::
  "'g FVCOMOPTModel \<Rightarrow> (nat \<Rightarrow> Particle) \<Rightarrow> real \<Rightarrow> error + Particle list" where
  "create_seed self malloc time =
     create_seed_loop self malloc time None []
       (zip (m_group_ids self)
          (zip (m_x_positions self) (zip (m_y_positions self) (m_z_positions self))))"

text \<open>\<open>seed\<close>: create the seed if there is none, then copy it into the active set.\<close>

definition seed ::
  "'g FVCOMOPTModel \<Rightarrow> (nat \<Rightarrow> Particle) \<Rightarrow> (nat \<Rightarrow> Particle) \<Rightarrow> real
     \<Rightarrow> error + 'g FVCOMOPTModel" where
  "seed self malloc malloc_copy time =
     (case (case particle_seed_smart_ptrs self of
              None \<Rightarrow> create_seed self malloc time
            | Some seeds \<Rightarrow> Inr seeds) of
        Inl e \<Rightarrow> Inl e
      | Inr seeds \<Rightarrow>
          Inr (self \<lparr> particle_seed_smart_ptrs := Some seeds,
                      particle_smart_ptrs :=
                        map (\<lambda>i. copy (malloc_copy i) (seeds ! i)) [0..<length seeds] \<rparr>))"

subsection \<open>update\<close>

text \<open>
  The loop \<open>while flag == -1\<close> of \<open>update\<close>. It may run forever: the result \<open>None\<close> is
  the loop that does not return.
\<close>

partial_function (option) land_bdy_loop ::
  "'g FVCOMOPTModel \<Rightarrow> Particle \<Rightarrow> real \<Rightarrow> real \<Rightarrow> int \<Rightarrow> int
     \<Rightarrow> (real \<times> real \<times> int \<times> int) option" where
  "land_bdy_loop self particle xpos' ypos' flag host =
     (if flag = - 1 then
        (let xy = horiz_bc_calculator self (data_reader self) (xpos particle) (ypos particle)
                    xpos' ypos' host;
             fh = reader_find_host (data_reader self) (xpos particle) (ypos particle)
                    (fst xy) (snd xy) (host_horizontal_elem particle)
         in land_bdy_loop self particle (fst xy) (snd xy) (fst fh) (snd fh))
      else Some (xpos', ypos', flag, host))"

text \<open>
  One pass through the body of the loop, and the flag of a loop state.
\<close>

definition land_bdy_step ::
  "'g FVCOMOPTModel \<Rightarrow> Particle \<Rightarrow> real \<times> real \<times> int \<times> int
     \<Rightarrow> real \<times> real \<times> int \<times> int" where
  "land_bdy_step self particle s =
     (case s of (xpos', ypos', flag, host) \<Rightarrow>
        (let xy = horiz_bc_calculator self (data_reader self) (xpos particle) (ypos particle)
                    xpos' ypos' host;
             fh = reader_find_host (data_reader self) (xpos particle) (ypos particle)
                    (fst xy) (snd xy) (host_horizontal_elem particle)
         in (fst xy, snd xy, fst fh, snd fh)))"

definition flag_of :: "real \<times> real \<times> int \<times> int \<Rightarrow> int" where
  "flag_of s = fst (snd (snd s))"

text \<open>
  The body of \<open>update\<close> for one particle, after the advection: the particle, the state of
  the random generator and the exception raised, if any; \<open>None\<close> when the land-boundary
  loop does not return.
\<close>

definition update_after_advection ::
  "'g FVCOMOPTModel \<Rightarrow> real \<Rightarrow> Particle \<Rightarrow> Delta \<Rightarrow> 'g
     \<Rightarrow> (Particle \<times> 'g \<times> error option) option" where
  "update_after_advection self time particle delta_X g =
     (let reader = data_reader self;
          (delta_X1, g1) =
            (case vert_rand_walk_model self of
               Some model \<Rightarrow> model time particle reader delta_X g
             | None \<Rightarrow> (delta_X, g));
          (delta_X2, g2) =
            (case horiz_rand_walk_model self of
               Some model \<Rightarrow> model time particle reader delta_X1 g1
             | None \<Rightarrow> (delta_X1, g1));
          xpos' = xpos particle + delta_x delta_X2;
          ypos' = ypos particle + delta_y delta_X2;
          zpos' = zpos particle + delta_z delta_X2;
          (flag, host) = reader_find_host reader (xpos particle) (ypos particle) xpos' ypos'
                           (host_horizontal_elem particle)
      in case land_bdy_loop self particle xpos' ypos' flag host of
           None \<Rightarrow> None
         | Some (xpos'', ypos'', flag', host') \<Rightarrow>
             if flag' = - 2 then Some (particle \<lparr> in_domain := False \<rparr>, g2, None)
             else if flag' = 0 then
               (let particle1 = particle \<lparr> xpos := xpos'', ypos := ypos'', zpos := zpos',
                                  host_horizontal_elem := host' \<rparr>;
                    particle2 = set_local_coordinates reader particle1;
                    zmin = reader_get_zmin reader (time + time_step self) particle2;
                    zmax = reader_get_zmax reader (time + time_step self) particle2;
                    particle3 =
                      (if zpos particle2 < zmin \<or> zpos particle2 > zmax
                       then particle2 \<lparr> zpos := vert_bc_calculator self (zpos particle2) zmin zmax \<rparr>
                       else particle2);
                    (ret, particle4) =
                      set_vertical_grid_vars reader (time + time_step self) particle3
                in Some (particle4 \<lparr> host_z_layer := ret \<rparr>, g2, None))
             else Some (particle, g2, Some (ValueError_unrecognised_flag host')))"

text \<open>
  The body of \<open>update\<close> for one particle: a particle out of the domain is skipped; for
  the others \<open>delta_X\<close> is reset and, when there is an integrator, the particle is
  advected.
\<close>

definition update_particle ::
  "'g FVCOMOPTModel \<Rightarrow> real \<Rightarrow> Particle \<Rightarrow> 'g
     \<Rightarrow> (Particle \<times> 'g \<times> error option) option" where
  "update_particle self time particle g =
     (if in_domain particle then
        (let delta_X = reset in
         case num_integrator self of
           Some integrator \<Rightarrow>
             (let (host_err, delta_X1) = integrator time particle (data_reader self) delta_X
              in if host_err = - 2
                 then Some (particle \<lparr> in_domain := False \<rparr>, g, None)
                 else update_after_advection self time particle delta_X1 g)
         | None \<Rightarrow> update_after_advection self time particle delta_X g)
      else Some (particle, g, None))"

text \<open>
  The loop over the particle set. An exception ends it and leaves the particles already
  updated as they are.
\<close>

fun update_loop ::
  "'g FVCOMOPTModel \<Rightarrow> real \<Rightarrow> Particle list \<Rightarrow> 'g
     \<Rightarrow> (Particle list \<times> 'g \<times> error option) option" where
  "update_loop self time [] g = Some ([], g, None)"
| "update_loop self time (particle # rest) g =
     (case update_particle self time particle g of
        None \<Rightarrow> None
      | Some (particle', g', Some e) \<Rightarrow> Some (particle' # rest, g', Some e)
      | Some (particle', g', None) \<Rightarrow>
          (case update_loop self time rest g' of
             None \<Rightarrow> None
           | Some (rest', g'', e) \<Rightarrow> Some (particle' # rest', g'', e)))"

text \<open>\<open>update\<close> runs the loop on the active particle set of the model.\<close>

definition update ::
  "'g FVCOMOPTModel \<Rightarrow> real \<Rightarrow> 'g \<Rightarrow> ('g FVCOMOPTModel \<times> 'g \<times> error option) option" where
  "update self time g =
     (case update_loop self time (particle_smart_ptrs self) g of
        None \<Rightarrow> None
      | Some (particles, g', e) \<Rightarrow> Some (self \<lparr> particle_smart_ptrs := particles \<rparr>, g', e))"

section \<open>Example inputs\<close>

text \<open>A particle in element 0 of the mesh below, in the top boundary layer.\<close>

definition ex_particle :: particles_Particle where
  "ex_particle =
     \<lparr> get_group_id = 0, get_id = 0, get_status = 0,
       get_x1 = 500, get_x2 = 500, get_x3 = - 1,
       get_omega_interfaces = 0, get_omega_layers = 0,
       get_in_domain = True, get_is_beached = 0, get_host_horizontal_elem = 0,
       get_phi = [1 / 6, 1 / 6, 2 / 3], get_k_layer = 0, get_in_vertical_boundary_layer = True,
       get_k_lower_layer = 0, get_k_upper_layer = 0 \<rparr>"

text \<open>
  A grid whose local search always reports a land crossing and whose tracing finds the
  particle in element 1.
\<close>

definition ex_grid :: UnstructuredGrid where
  "ex_grid =
     \<lparr> grid_find_host_using_local_search = (\<lambda>p guess. Inr (- 1, p)),
       grid_find_host_using_particle_tracing =
         (\<lambda>p_old p_new. Inr (0, p_new \<lparr> get_host_horizontal_elem := 1 \<rparr>)) \<rparr>"

text \<open>
  The square with corners \<open>(0, 0)\<close> and \<open>(3000, 3000)\<close>, cut into two triangles along
  the diagonal from node 1 to node 2. Element 0 has element 1 across the edge opposite its
  first vertex and land across the other two edges. One sigma layer, the uniform flow
  \<open>(u, v, w) = (1, 0, 0)\<close> in both frames, frames at times 0 and 1.
\<close>



definition ex_reader :: "(real \<times> real) FVCOMDataReader" where
  "ex_reader =
     \<lparr> mediator = (0, 1),
       m_unstructured_grid = ex_grid,
       env_var_names = [],
       m_n_elems = 2, m_n_nodes = 4, m_n_siglay = 1, m_n_siglev = 2,
       m_nv = [[0, 1], [1, 3], [2, 2]],
       m_nbe = [[1, - 1], [- 1, 0], [- 1, - 1]],
       m_x = [0, 3000, 0, 3000], m_y = [0, 0, 3000, 3000],
       m_xc = [1000, 2000], m_yc = [1000, 2000],
       m_siglev = [[0, 0, 0, 0], [- 1, - 1, - 1, - 1]],
       m_siglay = [[- 1 / 2, - 1 / 2, - 1 / 2, - 1 / 2]],
       m_h = [10, 10, 10, 10],
       m_zeta_last = [0, 0, 0, 0], m_zeta_next = [0, 0, 0, 0],
       m_u_last = [[1, 1]], m_u_next = [[1, 1]],
       m_v_last = [[0, 0]], m_v_next = [[0, 0]],
       m_w_last = [[0, 0]], m_w_next = [[0, 0]],
       m_kh_last = [], m_kh_next = [],
       m_viscofh_last = [], m_viscofh_next = [],
       m_wet_cells_last = [0, 1], m_wet_cells_next = [1, 1],
       m_thetao_last = [], m_thetao_next = [],
       m_so_last = [], m_so_next = [],
       m_time_direction = 1, m_time_last = 0, m_time_next = 1,
       m_has_Kh = False, m_has_Ah = False, m_has_is_wet = True \<rparr>"

definition ex_mem :: Particle where
  "ex_mem =
     \<lparr> group_id = 7, xpos = 7, ypos = 7, zpos = 7, phi = [7, 7, 7],
       omega_interfaces = 7, omega_layers = 7, in_domain = True, is_beached = 7,
       host_horizontal_elem = 7, k_layer = 7, in_vertical_boundary_layer = True,
       k_lower_layer = 7, k_upper_layer = 7, host_z_layer = 7 \<rparr>"

text \<open>
  A channel \<open>0 \<le> x \<le> 10\<close> of one element, with land at \<open>x < 0\<close>, an open boundary at
  \<open>x > 10\<close>, the sea floor at \<open>-10\<close> and the surface at \<open>0\<close>.
\<close>

definition ex_data_reader :: DataReader where
  "ex_data_reader =
     \<lparr> reader_find_host =
         (\<lambda>x_old y_old x_new y_new guess.
            if x_new < 0 then (- 1, 0) else if x_new > 10 then (- 2, 0) else (0, 0)),
       reader_find_host_using_local_search =
         (\<lambda>x y guess. if 0 \<le> x \<and> x \<le> 10 then (0, 0) else (- 1, guess)),
       reader_find_host_using_global_search =
         (\<lambda>x y. if 0 \<le> x \<and> x \<le> 10 then 0 else - 1),
       reader_set_local_coordinates = (\<lambda>p. [1 / 3, 1 / 3, 1 / 3]),
       reader_get_zmin = (\<lambda>t p. - 10),
       reader_get_zmax = (\<lambda>t p. 0),
       reader_set_vertical_grid_vars =
         (\<lambda>t p. (0, \<lparr> new_k_layer = 0, new_k_lower_layer = 0, new_k_upper_layer = 0,
                       new_in_vertical_boundary_layer = True,
                       new_omega_interfaces = 1 / 2, new_omega_layers = 0 \<rparr>)) \<rparr>"

text \<open>An integrator that leaves the domain from \<open>x > 9\<close> and otherwise moves one unit in \<open>x\<close>.\<close>

definition ex_integrator :: NumIntegrator where
  "ex_integrator t p reader delta_X =
     (if xpos p > 9 then (- 2, delta_X) else (0, delta_X \<lparr> delta_x := 1 \<rparr>))"

definition ex_model :: "unit FVCOMOPTModel" where
  "ex_model =
     \<lparr> config_depth_coordinates = ''cartesian'',
       data_reader = ex_data_reader,
       num_integrator = Some ex_integrator,
       vert_rand_walk_model = None,
       horiz_rand_walk_model = None,
       horiz_bc_calculator = (\<lambda>reader x_old y_old x_new y_new host. (x_new + 1, y_new)),
       vert_bc_calculator = (\<lambda>z zmin zmax. if z < zmin then 2 * zmin - z else 2 * zmax - z),
       particle_seed_smart_ptrs = None,
       particle_smart_ptrs = [],
       m_group_ids = [1, 2],
       m_x_positions = [5, - 5],
       m_y_positions = [0, 0],
       m_z_positions = [- 1, - 1],
       time_step = 1 \<rparr>"

definition ex_seed_particle :: Particle where
  "ex_seed_particle =
     \<lparr> group_id = 1, xpos = 19 / 2, ypos = 0, zpos = - 1, phi = [1 / 3, 1 / 3, 1 / 3],
       omega_interfaces = 1 / 2, omega_layers = 0, in_domain = True, is_beached = 0,
       host_horizontal_elem = 0, k_layer = 0, in_vertical_boundary_layer = True,
       k_lower_layer = 0, k_upper_layer = 0, host_z_layer = 0 \<rparr>"

text \<open>The same channel with a \<open>find_host\<close> that reports a land crossing for every position.\<close>

definition ex_model_stuck :: "unit FVCOMOPTModel" where
  "ex_model_stuck =
     ex_model \<lparr> data_reader :=
                  ex_data_reader \<lparr> reader_find_host := (\<lambda>x_old y_old x_new y_new guess. (- 1, 0)) \<rparr>,
                num_integrator := None,
                particle_smart_ptrs := [ex_seed_particle] \<rparr>"

section \<open>Properties\<close>

subsection \<open>Host search of the reader\<close>

text \<open>
  C1. \<open>FVCOMDataReader.find_host\<close> first runs the local search on the new particle,
  starting from the old particle's host. When that search returns a flag, the particle
  tracing is invoked exactly when the flag is not \<open>IN_DOMAIN\<close>; the result is the local
  search's flag (and particle) when the flag is \<open>IN_DOMAIN\<close> and the result of the tracing
  otherwise.
\<close>

theorem find_host_local_then_tracing:
  assumes "grid_find_host_using_local_search (m_unstructured_grid self) particle_new
             (get_host_horizontal_elem particle_old) = Inr (flag, particle_new1)"
  shows "hd (fst (find_host self particle_old particle_new))
           = Local_search particle_new (get_host_horizontal_elem particle_old)
       \<and> ((\<exists>p q. Particle_tracing p q \<in> set (fst (find_host self particle_old particle_new)))
            \<longleftrightarrow> flag \<noteq> IN_DOMAIN)
       \<and> (flag \<noteq> IN_DOMAIN \<longrightarrow>
            fst (find_host self particle_old particle_new)
              = [Local_search particle_new (get_host_horizontal_elem particle_old),
                 Particle_tracing particle_old particle_new1])
       \<and> snd (find_host self particle_old particle_new)
           = (if flag = IN_DOMAIN then Inr (flag, particle_new1)
              else grid_find_host_using_particle_tracing (m_unstructured_grid self)
                     particle_old particle_new1)"
  using assms by (simp add: find_host_def)

theorem find_host_local_then_tracing_witness:
  "grid_find_host_using_local_search (m_unstructured_grid ex_reader) ex_particle
       (get_host_horizontal_elem ex_particle) = Inr (- 1, ex_particle)
   \<and> fst (find_host ex_reader ex_particle ex_particle)
       = [Local_search ex_particle 0, Particle_tracing ex_particle ex_particle]
   \<and> snd (find_host ex_reader ex_particle ex_particle)
       = Inr (0, ex_particle \<lparr> get_host_horizontal_elem := 1 \<rparr>)"
proof -
  have h: "grid_find_host_using_local_search (m_unstructured_grid ex_reader) ex_particle
       (get_host_horizontal_elem ex_particle) = Inr (- 1, ex_particle)"
    by (simp add: ex_reader_def ex_grid_def)
  have "get_host_horizontal_elem ex_particle = 0"
    by (simp add: ex_particle_def)
  then show ?thesis
    using h find_host_local_then_tracing [OF h]
    by (simp add: IN_DOMAIN_def ex_reader_def ex_grid_def)
qed

subsection \<open>Wet and dry elements\<close>

text \<open>
  C10. The result of \<open>is_wet\<close> does not depend on its time argument. It is determined by
  the flag \<open>has_is_wet\<close>, the host element and the \<open>wet_cells\<close> arrays of the two frames,
  and it is 1 whenever \<open>has_is_wet\<close> is false.
\<close>

theorem is_wet_independent_of_time:
  "is_wet ta self particle = is_wet tb self particle
   \<and> (m_has_is_wet self = m_has_is_wet self'
        \<and> get_host_horizontal_elem particle = get_host_horizontal_elem particle'
        \<and> m_wet_cells_last self = m_wet_cells_last self'
        \<and> m_wet_cells_next self = m_wet_cells_next self'
      \<longrightarrow> is_wet ta self particle = is_wet tb self' particle')
   \<and> (\<not> m_has_is_wet self \<longrightarrow> is_wet ta self particle = Some 1)"
  by (simp add: is_wet_def Let_def cong: if_cong)

theorem is_wet_independent_of_time_witness:
  "is_wet 0 ex_reader ex_particle = Some 0
   \<and> is_wet 1 ex_reader ex_particle = Some 0
   \<and> is_wet 5 (ex_reader \<lparr> m_time_next := 7 \<rparr>) (ex_particle \<lparr> get_x1 := 2 \<rparr>) = Some 0
   \<and> is_wet 5 (ex_reader \<lparr> m_has_is_wet := False \<rparr>) ex_particle = Some 1"
proof -
  have v: "is_wet 0 ex_reader ex_particle = Some 0"
    by (simp add: is_wet_def ex_reader_def ex_particle_def mv_get_def)
  have a: "is_wet 0 ex_reader ex_particle = is_wet 1 ex_reader ex_particle"
    using is_wet_independent_of_time
            [where ta = 0 and tb = 1 and self = ex_reader and particle = ex_particle
               and self' = ex_reader and particle' = ex_particle]
    by simp
  have b: "is_wet 0 ex_reader ex_particle
           = is_wet 5 (ex_reader \<lparr> m_time_next := 7 \<rparr>) (ex_particle \<lparr> get_x1 := 2 \<rparr>)"
    using is_wet_independent_of_time
            [where ta = 0 and tb = 5 and self = ex_reader and particle = ex_particle
               and self' = "ex_reader \<lparr> m_time_next := 7 \<rparr>"
               and particle' = "ex_particle \<lparr> get_x1 := 2 \<rparr>",
             THEN conjunct2, THEN conjunct1]
    by simp
  have c: "is_wet 5 (ex_reader \<lparr> m_has_is_wet := False \<rparr>) ex_particle = Some 1"
    using is_wet_independent_of_time
            [where ta = 5 and tb = 5 and self = "ex_reader \<lparr> m_has_is_wet := False \<rparr>"
               and particle = ex_particle and self' = ex_reader and particle' = ex_particle]
    by simp
  from v a b c show ?thesis by simp
qed

subsection \<open>Barycentric coordinates\<close>





text \<open>
  The coordinates are those of the point: \<open>phi[0]\<close> weighs the second vertex,
  \<open>phi[1]\<close> the third and \<open>phi[2]\<close> the first.
\<close>

lemma get_barycentric_coords_value:
  assumes "barycentric_det [x0, x1, x2] [y0, y1, y2] \<noteq> 0"
  shows "get_barycentric_coords x y [x0, x1, x2] [y0, y1, y2] [p0, p1, p2]
     = Inr [((y2 - y0) * (x - x0) + (x0 - x2) * (y - y0)) / barycentric_det [x0, x1, x2] [y0, y1, y2],
            ((y0 - y1) * (x - x0) + (x1 - x0) * (y - y0)) / barycentric_det [x0, x1, x2] [y0, y1, y2],
            1 - ((y2 - y0) * (x - x0) + (x0 - x2) * (y - y0)) / barycentric_det [x0, x1, x2] [y0, y1, y2]
              - ((y0 - y1) * (x - x0) + (x1 - x0) * (y - y0)) / barycentric_det [x0, x1, x2] [y0, y1, y2]]"
  using assms
  by (simp add: get_barycentric_coords_def barycentric_det_def mv_get_def mv_set_def Let_def)

lemma get_barycentric_coords_reproduces_point:
  assumes "barycentric_det [x0, x1, x2] [y0, y1, y2] \<noteq> 0"
    and "get_barycentric_coords x y [x0, x1, x2] [y0, y1, y2] [p0, p1, p2] = Inr [a, b, c]"
  shows "c * x0 + a * x1 + b * x2 = x \<and> c * y0 + a * y1 + b * y2 = y"
proof -
  define d where "d = barycentric_det [x0, x1, x2] [y0, y1, y2]"
  define A where "A = (y2 - y0) * (x - x0) + (x0 - x2) * (y - y0)"
  define B where "B = (y0 - y1) * (x - x0) + (x1 - x0) * (y - y0)"
  have d: "d \<noteq> 0" using assms(1) by (simp add: d_def)
  from assms(2) get_barycentric_coords_value [OF assms(1), of x y p0 p1 p2]
  have abc: "a = A / d" "b = B / d" "c = 1 - A / d - B / d"
    by (simp_all add: d_def A_def B_def)
  have dx: "A * (x1 - x0) + B * (x2 - x0) = d * (x - x0)"
    by (simp add: A_def B_def d_def barycentric_det_def algebra_simps)
  have dy: "A * (y1 - y0) + B * (y2 - y0) = d * (y - y0)"
    by (simp add: A_def B_def d_def barycentric_det_def algebra_simps)
  have "c * x0 + a * x1 + b * x2 = x0 + (A * (x1 - x0) + B * (x2 - x0)) / d"
    unfolding abc by (simp add: algebra_simps add_divide_distrib diff_divide_distrib)
  also have "\<dots> = x" unfolding dx using d by simp
  finally have X: "c * x0 + a * x1 + b * x2 = x" .
  have "c * y0 + a * y1 + b * y2 = y0 + (A * (y1 - y0) + B * (y2 - y0)) / d"
    unfolding abc by (simp add: algebra_simps add_divide_distrib diff_divide_distrib)
  also have "\<dots> = y" unfolding dy using d by simp
  finally have Y: "c * y0 + a * y1 + b * y2 = y" .
  from X Y show ?thesis by simp
qed

subsection \<open>Shepard interpolation\<close>
















subsection \<open>Advancing the bracket frames\<close>




subsection \<open>The particle loop of update\<close>

lemma update_loop_not_in_domain:
  "update_loop self t ps g = Some (ps', g', e) \<Longrightarrow> i < length ps \<Longrightarrow> \<not> in_domain (ps ! i)
   \<Longrightarrow> ps' ! i = ps ! i"
proof (induction ps arbitrary: i g ps' g' e)
  case Nil
  then show ?case by simp
next
  case (Cons p ps)
  show ?case
  proof (cases i)
    case 0
    with Cons.prems have nd: "\<not> in_domain p" by simp
    then have "update_particle self t p g = Some (p, g, None)"
      by (simp add: update_particle_def)
    with Cons.prems(1) 0 show ?thesis
      by (auto split: option.splits)
  next
    case (Suc j)
    with Cons.prems have j: "j < length ps" "\<not> in_domain (ps ! j)" by simp_all
    from Cons.prems(1) Suc Cons.IH [OF _ j] show ?thesis
      by (auto split: option.splits)
  qed
qed

lemma update_loop_length:
  "update_loop self t ps g = Some (ps', g', e) \<Longrightarrow> length ps' = length ps"
  by (induction ps arbitrary: g ps' g' e) (auto split: option.splits)

lemma update_loop_completed:
  "update_loop self t ps g = Some (ps', g', None) \<Longrightarrow> i < length ps
   \<Longrightarrow> \<exists>gi gi'. update_particle self t (ps ! i) gi = Some (ps' ! i, gi', None)"
proof (induction ps arbitrary: i g ps' g')
  case Nil
  then show ?case by simp
next
  case (Cons p ps)
  from Cons.prems(1) obtain p' g1 rest' where
    p: "update_particle self t p g = Some (p', g1, None)"
    and r: "update_loop self t ps g1 = Some (rest', g', None)"
    and ps': "ps' = p' # rest'"
    by (auto split: option.splits)
  show ?case
  proof (cases i)
    case 0
    with p ps' show ?thesis by auto
  next
    case (Suc j)
    with Cons.prems have "j < length ps" by simp
    from Cons.IH [OF r this] Suc ps' show ?thesis by simp
  qed
qed

text \<open>
  C2. When \<open>advect\<close> returns \<open>host_err = -2\<close> for a particle in the domain, \<open>update\<close>
  sets the particle's \<open>in_domain\<close> to false and changes no other field; the state of the
  random generator is untouched. The same holds for the particle at any index of the
  particle set once \<open>update\<close> has run through it.
\<close>

theorem update_advect_exit:
  assumes "in_domain particle" and "num_integrator self = Some integrator"
    and "fst (integrator time particle (data_reader self) reset) = - 2"
  shows "update_particle self time particle g = Some (particle \<lparr> in_domain := False \<rparr>, g, None)
       \<and> (\<forall>i ps ps' g0 g'. update_loop self time ps g0 = Some (ps', g', None) \<and> i < length ps
              \<and> ps ! i = particle \<longrightarrow> ps' ! i = particle \<lparr> in_domain := False \<rparr>)"
proof -
  have one: "update_particle self time particle gi = Some (particle \<lparr> in_domain := False \<rparr>, gi, None)"
    for gi
    using assms by (simp add: update_particle_def Let_def split_beta)
  have "ps' ! i = particle \<lparr> in_domain := False \<rparr>"
    if "update_loop self time ps g0 = Some (ps', g', None)" "i < length ps" "ps ! i = particle"
    for i ps ps' g0 g'
    using update_loop_completed [OF that(1) that(2)] that(3) one by auto
  with one show ?thesis by blast
qed

theorem update_advect_exit_witness:
  "in_domain ex_seed_particle \<and> num_integrator ex_model = Some ex_integrator
   \<and> fst (ex_integrator 0 ex_seed_particle (data_reader ex_model) reset) = - 2
   \<and> update_particle ex_model 0 ex_seed_particle ()
       = Some (ex_seed_particle \<lparr> in_domain := False \<rparr>, (), None)"
proof -
  have a: "in_domain ex_seed_particle" by (simp add: ex_seed_particle_def)
  have b: "num_integrator ex_model = Some ex_integrator" by (simp add: ex_model_def)
  have c: "fst (ex_integrator 0 ex_seed_particle (data_reader ex_model) reset) = - 2"
    by (simp add: ex_integrator_def ex_seed_particle_def)
  from update_advect_exit [OF a b c] a b c show ?thesis by blast
qed

subsection \<open>The land-boundary loop\<close>

lemma land_bdy_loop_step:
  "land_bdy_loop self particle x y (- 1) host
     = (case land_bdy_step self particle (x, y, - 1, host) of (x', y', flag', host') \<Rightarrow>
          land_bdy_loop self particle x' y' flag' host')"
  by (subst land_bdy_loop.simps) (simp add: land_bdy_step_def Let_def split_beta)

lemma land_bdy_loop_exit:
  "flag \<noteq> - 1 \<Longrightarrow> land_bdy_loop self particle x y flag host = Some (x, y, flag, host)"
  by (subst land_bdy_loop.simps) simp

lemma land_bdy_loop_iterate:
  "(\<forall>k<n. flag_of ((land_bdy_step self particle ^^ k) (x, y, flag, host)) = - 1)
   \<Longrightarrow> flag_of ((land_bdy_step self particle ^^ n) (x, y, flag, host)) \<noteq> - 1
   \<Longrightarrow> land_bdy_loop self particle x y flag host
       = Some ((land_bdy_step self particle ^^ n) (x, y, flag, host))"
proof (induction n arbitrary: x y flag host)
  case 0
  then show ?case by (simp add: flag_of_def land_bdy_loop_exit)
next
  case (Suc n)
  from Suc.prems(1) have f: "flag = - 1" by (auto simp add: flag_of_def dest: spec [of _ 0])
  obtain x' y' flag' host' where st: "land_bdy_step self particle (x, y, flag, host) = (x', y', flag', host')"
    by (cases "land_bdy_step self particle (x, y, flag, host)") auto
  have a: "\<forall>k<n. flag_of ((land_bdy_step self particle ^^ k) (x', y', flag', host')) = - 1"
  proof (intro allI impI)
    fix k assume "k < n"
    then have "Suc k < Suc n" by simp
    with Suc.prems(1) have "flag_of ((land_bdy_step self particle ^^ Suc k) (x, y, flag, host)) = - 1"
      by blast
    then show "flag_of ((land_bdy_step self particle ^^ k) (x', y', flag', host')) = - 1"
      by (simp add: funpow_swap1 st)
  qed
  have b: "flag_of ((land_bdy_step self particle ^^ n) (x', y', flag', host')) \<noteq> - 1"
    using Suc.prems(2) by (simp add: funpow_swap1 st)
  from Suc.IH [OF a b] show ?case
    using f st by (simp add: land_bdy_loop_step funpow_swap1)
qed

lemma land_bdy_loop_returns:
  assumes "land_bdy_loop self particle x y flag host = Some r"
  shows "\<exists>n. (\<forall>k<n. flag_of ((land_bdy_step self particle ^^ k) (x, y, flag, host)) = - 1)
          \<and> flag_of ((land_bdy_step self particle ^^ n) (x, y, flag, host)) \<noteq> - 1
          \<and> r = (land_bdy_step self particle ^^ n) (x, y, flag, host)"
proof (rule land_bdy_loop.raw_induct
    [where P = "\<lambda>self particle x y flag host r.
       \<exists>n. (\<forall>k<n. flag_of ((land_bdy_step self particle ^^ k) (x, y, flag, host)) = - 1)
          \<and> flag_of ((land_bdy_step self particle ^^ n) (x, y, flag, host)) \<noteq> - 1
          \<and> r = (land_bdy_step self particle ^^ n) (x, y, flag, host)", OF _ assms], goal_cases)
  case (1 loop self particle x y flag host r)
  show ?case
  proof (cases "flag = - 1")
    case False
    with 1(2) have "r = (x, y, flag, host)" by simp
    with False show ?thesis
      by (intro exI [of _ 0]) (simp add: flag_of_def)
  next
    case True
    obtain x' y' flag' host' where st: "land_bdy_step self particle (x, y, flag, host) = (x', y', flag', host')"
      by (cases "land_bdy_step self particle (x, y, flag, host)") auto
    have "(let xy = horiz_bc_calculator self (data_reader self) (xpos particle) (ypos particle)
                      x y host;
               fh = reader_find_host (data_reader self) (xpos particle) (ypos particle)
                      (fst xy) (snd xy) (host_horizontal_elem particle)
           in loop self particle (fst xy) (snd xy) (fst fh) (snd fh))
        = (case land_bdy_step self particle (x, y, flag, host) of
             (a, b, c, d) \<Rightarrow> loop self particle a b c d)"
      by (simp add: land_bdy_step_def Let_def split_beta)
    with 1(2) True have "(case land_bdy_step self particle (x, y, flag, host) of
             (a, b, c, d) \<Rightarrow> loop self particle a b c d) = Some r"
      by simp
    then have "loop self particle x' y' flag' host' = Some r"
      by (simp add: st)
    from 1(1) [OF this] obtain n where
      n: "\<forall>k<n. flag_of ((land_bdy_step self particle ^^ k) (x', y', flag', host')) = - 1"
         "flag_of ((land_bdy_step self particle ^^ n) (x', y', flag', host')) \<noteq> - 1"
         "r = (land_bdy_step self particle ^^ n) (x', y', flag', host')"
      by blast
    have "\<forall>k<Suc n. flag_of ((land_bdy_step self particle ^^ k) (x, y, flag, host)) = - 1"
    proof (intro allI impI)
      fix k assume k: "k < Suc n"
      show "flag_of ((land_bdy_step self particle ^^ k) (x, y, flag, host)) = - 1"
      proof (cases k)
        case 0
        with True show ?thesis by (simp add: flag_of_def)
      next
        case (Suc j)
        with k n(1) show ?thesis by (simp add: funpow_swap1 st)
      qed
    qed
    with n(2,3) show ?thesis
      by (intro exI [of _ "Suc n"]) (simp add: funpow_swap1 st)
  qed
qed

text \<open>
  C3, as the code has it. The land-boundary loop has no iteration cap and never moves
  the particle to a centroid. It returns exactly when some number \<open>n\<close> of passes
  (boundary condition, then \<open>find_host\<close>) first yields a flag other than \<open>-1\<close>, and it
  returns the position, flag and host of that pass.
\<close>

theorem land_bdy_loop_terminates_iff:
  "land_bdy_loop self particle x y flag host = Some r
   \<longleftrightarrow> (\<exists>n. (\<forall>k<n. flag_of ((land_bdy_step self particle ^^ k) (x, y, flag, host)) = - 1)
          \<and> flag_of ((land_bdy_step self particle ^^ n) (x, y, flag, host)) \<noteq> - 1
          \<and> r = (land_bdy_step self particle ^^ n) (x, y, flag, host))"
  using land_bdy_loop_returns [of self particle x y flag host r]
    land_bdy_loop_iterate [of _ self particle x y flag host]
  by blast

theorem land_bdy_loop_terminates_iff_witness:
  "land_bdy_loop ex_model ex_seed_particle (- (3 / 2)) 0 (- 1) 0 = Some (1 / 2, 0, 0, 0)
   \<and> flag_of ((land_bdy_step ex_model ex_seed_particle ^^ 0) (- (3 / 2), 0, - 1, 0)) = - 1
   \<and> flag_of ((land_bdy_step ex_model ex_seed_particle ^^ 1) (- (3 / 2), 0, - 1, 0)) = - 1
   \<and> (land_bdy_step ex_model ex_seed_particle ^^ 2) (- (3 / 2), 0, - 1, 0) = (1 / 2, 0, 0, 0)"
proof -
  have s0: "flag_of ((land_bdy_step ex_model ex_seed_particle ^^ 0) (- (3 / 2), 0, - 1, 0)) = - 1"
    by (simp add: flag_of_def)
  have s1: "(land_bdy_step ex_model ex_seed_particle ^^ 1) (- (3 / 2), 0, - 1, 0)
              = (- (1 / 2), 0, - 1, 0)"
    by (simp add: land_bdy_step_def ex_model_def ex_data_reader_def Let_def)
  have s2: "(land_bdy_step ex_model ex_seed_particle ^^ 2) (- (3 / 2), 0, - 1, 0)
              = (1 / 2, 0, 0, 0)"
    using s1 by (simp add: numeral_2_eq_2 land_bdy_step_def ex_model_def ex_data_reader_def Let_def)
  have f1: "flag_of ((land_bdy_step ex_model ex_seed_particle ^^ 1) (- (3 / 2), 0, - 1, 0)) = - 1"
    unfolding s1 by (simp add: flag_of_def)
  have "\<forall>k<2. flag_of ((land_bdy_step ex_model ex_seed_particle ^^ k) (- (3 / 2), 0, - 1, 0)) = - 1"
  proof (intro allI impI)
    fix k :: nat assume "k < 2"
    then have "k = 0 \<or> k = 1" by auto
    with s0 f1 show "flag_of ((land_bdy_step ex_model ex_seed_particle ^^ k) (- (3 / 2), 0, - 1, 0)) = - 1"
      by auto
  qed
  moreover have "flag_of ((land_bdy_step ex_model ex_seed_particle ^^ 2) (- (3 / 2), 0, - 1, 0)) \<noteq> - 1"
    unfolding s2 by (simp add: flag_of_def)
  ultimately have "\<exists>n. (\<forall>k<n. flag_of ((land_bdy_step ex_model ex_seed_particle ^^ k)
                      (- (3 / 2), 0, - 1, 0)) = - 1)
          \<and> flag_of ((land_bdy_step ex_model ex_seed_particle ^^ n) (- (3 / 2), 0, - 1, 0)) \<noteq> - 1
          \<and> (1 / 2, 0, 0, 0) = (land_bdy_step ex_model ex_seed_particle ^^ n) (- (3 / 2), 0, - 1, 0)"
    using s2 by (intro exI [of _ 2]) simp
  then have "land_bdy_loop ex_model ex_seed_particle (- (3 / 2)) 0 (- 1) 0 = Some (1 / 2, 0, 0, 0)"
    by (rule land_bdy_loop_terminates_iff [THEN iffD2])
  with s0 f1 s2 show ?thesis by simp
qed

text \<open>
  C3 as stated fails: with a \<open>find_host\<close> that reports a land crossing for every
  position, the loop does not return, and neither does \<open>update\<close>.
\<close>

lemma ex_model_stuck_iterates:
  "flag_of ((land_bdy_step ex_model_stuck particle ^^ n) (x, y, - 1, host)) = - 1"
proof (induction n arbitrary: x y host)
  case 0
  show ?case by (simp add: flag_of_def)
next
  case (Suc n)
  have "land_bdy_step ex_model_stuck particle (x, y, - 1, host) = (x + 1, y, - 1, 0)"
    by (simp add: land_bdy_step_def ex_model_stuck_def ex_model_def Let_def)
  with Suc.IH [of "x + 1" y 0] show ?case
    by (simp add: funpow_swap1)
qed

lemma ex_model_stuck_loop: "land_bdy_loop ex_model_stuck particle x y (- 1) host = None"
proof (cases "land_bdy_loop ex_model_stuck particle x y (- 1) host")
  case None
  then show ?thesis .
next
  case (Some r)
  from land_bdy_loop_returns [OF Some] ex_model_stuck_iterates [where particle = particle and x = x and y = y and host = host]
  show ?thesis by blast
qed

theorem land_bdy_loop_unbounded_counterexample:
  "in_domain ex_seed_particle
   \<and> update_particle ex_model_stuck 0 ex_seed_particle () = None
   \<and> update ex_model_stuck 0 () = None"
proof -
  have fh: "reader_find_host (data_reader ex_model_stuck) x_old y_old x_new y_new guess = (- 1, 0)"
    for x_old y_old x_new y_new guess
    by (simp add: ex_model_stuck_def)
  have rw: "vert_rand_walk_model ex_model_stuck = None" "horiz_rand_walk_model ex_model_stuck = None"
    "num_integrator ex_model_stuck = None"
    by (simp_all add: ex_model_stuck_def ex_model_def)
  have a: "update_after_advection ex_model_stuck 0 ex_seed_particle reset () = None"
    by (simp add: update_after_advection_def Let_def fh rw ex_model_stuck_loop)
  have d: "in_domain ex_seed_particle"
    by (simp add: ex_seed_particle_def)
  have b: "update_particle ex_model_stuck 0 ex_seed_particle () = None"
    by (simp add: update_particle_def Let_def a d rw)
  have c: "particle_smart_ptrs ex_model_stuck = [ex_seed_particle]"
    by (simp add: ex_model_stuck_def)
  from b c d show ?thesis by (simp add: update_def)
qed

subsection \<open>Seed creation\<close>




text \<open>
  C9. A seed tuple for which the host search fails yields a particle with the
  constructor's sentinels \<open>xpos = ypos = zpos = -999\<close> and \<open>host_horizontal_elem = -999\<close>
  in place of the seed coordinates, and with \<open>in_domain\<close> false; so has every copy of it.
  \<open>update\<close> leaves the particle and its copies as they are.
\<close>

theorem seed_outside_mesh_keeps_sentinels:
  assumes "find_seed_host (data_reader self) guess x y < 0"
  shows "\<exists>p. create_seed_particle self mem time guess (grp, x, y, z_temp) = Inr (p, guess)
           \<and> xpos p = - 999 \<and> ypos p = - 999 \<and> zpos p = - 999
           \<and> host_horizontal_elem p = - 999 \<and> \<not> in_domain p
           \<and> (\<forall>mem'. xpos (copy mem' p) = - 999 \<and> ypos (copy mem' p) = - 999
                  \<and> zpos (copy mem' p) = - 999 \<and> host_horizontal_elem (copy mem' p) = - 999
                  \<and> \<not> in_domain (copy mem' p))
           \<and> (\<forall>t g. update_particle self t p g = Some (p, g, None))
           \<and> (\<forall>t g ps ps' g' e i.
                  update_loop self t ps g = Some (ps', g', e) \<and> i < length ps
                  \<and> (ps ! i = p \<or> (\<exists>mem'. ps ! i = copy mem' p))
                \<longrightarrow> ps' ! i = ps ! i)"
proof -
  define p where "p = cinit mem (cinit_defaults \<lparr> arg_group_id := grp, arg_in_domain := False \<rparr>)"
  have res: "create_seed_particle self mem time guess (grp, x, y, z_temp) = Inr (p, guess)"
    using assms by (simp add: create_seed_particle_def Let_def p_def)
  have f: "xpos p = - 999" "ypos p = - 999" "zpos p = - 999" "host_horizontal_elem p = - 999"
    "\<not> in_domain p"
    by (simp_all add: p_def cinit_def cinit_defaults_def)
  have c: "xpos (copy mem' p) = - 999" "ypos (copy mem' p) = - 999" "zpos (copy mem' p) = - 999"
    "host_horizontal_elem (copy mem' p) = - 999" "\<not> in_domain (copy mem' p)" for mem'
    using f by (simp_all add: copy_def cinit_def)
  have u: "update_particle self t p g = Some (p, g, None)" for t g
    using f(5) by (simp add: update_particle_def)
  have l: "ps' ! i = ps ! i"
    if "update_loop self t ps g = Some (ps', g', e)" "i < length ps"
       "ps ! i = p \<or> (\<exists>mem'. ps ! i = copy mem' p)"
    for t g ps ps' g' e i
  proof -
    from that(3) f(5) c(5) have "\<not> in_domain (ps ! i)" by auto
    from update_loop_not_in_domain [OF that(1) that(2) this] show ?thesis .
  qed
  from res f c u l show ?thesis by blast
qed

theorem seed_outside_mesh_keeps_sentinels_witness:
  "find_seed_host (data_reader ex_model) (Some 0) (- 5) 0 < 0
   \<and> create_seed_particle ex_model ex_mem 0 (Some 0) (2, - 5, 0, - 1)
       = Inr (ex_mem \<lparr> group_id := 2, xpos := - 999, ypos := - 999, zpos := - 999,
                       phi := [- 999, - 999, - 999], omega_interfaces := - 999,
                       omega_layers := - 999, in_domain := False, is_beached := 0,
                       host_horizontal_elem := - 999, k_layer := - 999,
                       in_vertical_boundary_layer := False, k_lower_layer := - 999,
                       k_upper_layer := - 999 \<rparr>, Some 0)
   \<and> update_particle ex_model 0
         (ex_mem \<lparr> group_id := 2, xpos := - 999, ypos := - 999, zpos := - 999,
                       phi := [- 999, - 999, - 999], omega_interfaces := - 999,
                       omega_layers := - 999, in_domain := False, is_beached := 0,
                       host_horizontal_elem := - 999, k_layer := - 999,
                       in_vertical_boundary_layer := False, k_lower_layer := - 999,
                       k_upper_layer := - 999 \<rparr>) ()
       = Some (ex_mem \<lparr> group_id := 2, xpos := - 999, ypos := - 999, zpos := - 999,
                       phi := [- 999, - 999, - 999], omega_interfaces := - 999,
                       omega_layers := - 999, in_domain := False, is_beached := 0,
                       host_horizontal_elem := - 999, k_layer := - 999,
                       in_vertical_boundary_layer := False, k_lower_layer := - 999,
                       k_upper_layer := - 999 \<rparr>, (), None)"
proof -
  have h: "find_seed_host (data_reader ex_model) (Some 0) (- 5) 0 < 0"
    by (simp add: find_seed_host_def ex_model_def ex_data_reader_def)
  have v: "create_seed_particle ex_model ex_mem 0 (Some 0) (2, - 5, 0, - 1)
       = Inr (ex_mem \<lparr> group_id := 2, xpos := - 999, ypos := - 999, zpos := - 999,
                       phi := [- 999, - 999, - 999], omega_interfaces := - 999,
                       omega_layers := - 999, in_domain := False, is_beached := 0,
                       host_horizontal_elem := - 999, k_layer := - 999,
                       in_vertical_boundary_layer := False, k_lower_layer := - 999,
                       k_upper_layer := - 999 \<rparr>, Some 0)"
    using h by (simp add: create_seed_particle_def Let_def cinit_def cinit_defaults_def)
  from seed_outside_mesh_keeps_sentinels [OF h, of ex_mem 0 2 "- 1"] v
  have "update_particle ex_model 0
         (ex_mem \<lparr> group_id := 2, xpos := - 999, ypos := - 999, zpos := - 999,
                       phi := [- 999, - 999, - 999], omega_interfaces := - 999,
                       omega_layers := - 999, in_domain := False, is_beached := 0,
                       host_horizontal_elem := - 999, k_layer := - 999,
                       in_vertical_boundary_layer := False, k_lower_layer := - 999,
                       k_upper_layer := - 999 \<rparr>) ()
       = Some (ex_mem \<lparr> group_id := 2, xpos := - 999, ypos := - 999, zpos := - 999,
                       phi := [- 999, - 999, - 999], omega_interfaces := - 999,
                       omega_layers := - 999, in_domain := False, is_beached := 0,
                       host_horizontal_elem := - 999, k_layer := - 999,
                       in_vertical_boundary_layer := False, k_lower_layer := - 999,
                       k_upper_layer := - 999 \<rparr>, (), None)"
    by auto
  with h v show ?thesis by blast
qed


text \<open>The seed loop on the two seed tuples of the example model.\<close>

lemma create_seed_example:
  "\<exists>p q. create_seed ex_model (\<lambda>i. ex_mem) 0 = Inr [p, q] \<and> in_domain p \<and> xpos p = 5
     \<and> zpos p = - 1 \<and> \<not> in_domain q \<and> xpos q = - 999"
  by (simp add: create_seed_def create_seed_particle_def find_seed_host_def ex_model_def
        ex_data_reader_def Let_def cinit_def cinit_defaults_def set_local_coordinates_def
        set_vertical_grid_vars_def)

subsection \<open>Velocity in an element on the boundary\<close>










end
